theory Spec2Isabelle
  imports Main "HOL-Library.Word" "HOL-Library.List_Lexorder" "HOL-Library.AList"
begin

unbundle bit_operations_syntax

section \<open>Bytes, keys and errors\<close>

type_synonym byte = "8 word"
type_synonym bytes = "8 word list"
type_synonym uint64 = "64 word"

text \<open>
  The error values of the indexers. \<open>NotFound\<close> is \<open>errs.NotFound\<close> of blocks.go
  (\<open>errs.ErrEntityNotFound\<close> in receipts.go), \<open>Errorf m\<close> is \<open>fmt.Errorf(m)\<close> without a
  wrapped error, \<open>Wrapf m e\<close> is \<open>fmt.Errorf\<close> with one \<open>%w\<close> verb, \<open>Wrap2 e1 e2\<close> is
  \<open>fmt.Errorf("%w: %w", e1, e2)\<close>. \<open>EngineFault\<close> is any error of the key-value engine
  other than its not-found error, \<open>CodecFault\<close> an error of an external encoder or decoder,
  and \<open>Panic\<close> a run-time panic.
\<close>

datatype error =
    NotFound
  | NotInitialized
  | ErrInvalidBlockRange
  | ErrInvalid
  | EngineFault
  | CodecFault
  | Panic string
  | Errorf string
  | Wrapf string error
  | Wrap2 error error

text \<open>\<open>errors.Is\<close>: the error itself or an error it wraps.\<close>

fun errorsIs :: "error \<Rightarrow> error \<Rightarrow> bool" where
  "errorsIs (Wrapf m e) t = (Wrapf m e = t \<or> errorsIs e t)"
| "errorsIs (Wrap2 e1 e2) t = (Wrap2 e1 e2 = t \<or> errorsIs e1 t \<or> errorsIs e2 t)"
| "errorsIs e t = (e = t)"

text \<open>
  Modelled from the spec: keys.go (the key codes, \<open>makePrefix\<close>, \<open>stripPrefix\<close>,
  \<open>uint64Bytes\<close>) is not among the sources. The spec fixes one distinct byte per logical
  index and a key layout of that byte followed by an 8-byte big-endian height or a hash.
  The byte values are not given, so a key is the pair of its code and the bytes after it;
  two keys with the same code compare byte-lexicographically exactly as their remainders do.
\<close>

datatype keycode =
    blockHeightKey
  | blockIDToHeightKey
  | evmHeightToCadenceHeightKey
  | latestEVMHeightKey
  | firstEVMHeightKey
  | receiptTxIDToHeightKey
  | receiptHeightKey
  | bloomHeightKey

type_synonym key = "keycode \<times> bytes"

definition makePrefix :: "keycode \<Rightarrow> bytes \<Rightarrow> key" where
  "makePrefix code k = (code, k)"

definition stripPrefix :: "key \<Rightarrow> bytes" where
  "stripPrefix k = snd k"

text \<open>\<open>uint64Bytes\<close>: the 8 bytes of a height, most significant first.\<close>

definition uint64Bytes :: "uint64 \<Rightarrow> bytes" where
  "uint64Bytes h =
     [ucast (drop_bit 56 h), ucast (drop_bit 48 h), ucast (drop_bit 40 h), ucast (drop_bit 32 h),
      ucast (drop_bit 24 h), ucast (drop_bit 16 h), ucast (drop_bit 8 h), ucast h]"

text \<open>
  \<open>binary.BigEndian.Uint64\<close> reads the first 8 bytes and panics on a shorter slice
  (\<open>None\<close> here).
\<close>

fun bigEndianUint64 :: "bytes \<Rightarrow> uint64 option" where
  "bigEndianUint64 (b0 # b1 # b2 # b3 # b4 # b5 # b6 # b7 # rest) =
     Some (ucast b7 OR push_bit 8 (ucast b6) OR push_bit 16 (ucast b5) OR push_bit 24 (ucast b4)
           OR push_bit 32 (ucast b3) OR push_bit 40 (ucast b2) OR push_bit 48 (ucast b1)
           OR push_bit 56 (ucast b0))"
| "bigEndianUint64 bs = None"

section \<open>The key-value store\<close>

text \<open>
  Modelled from the spec: storage.go (\<open>Storage.get\<close>, \<open>Storage.set\<close>) is not among the
  sources. The spec gives the contract \<open>get(code, key) -> bytes | NotFound\<close> and
  \<open>set(code, key, value, batch?)\<close>, where a write goes to the batch when one is given and
  to the database otherwise, and lists faults of the underlying engine among the errors.
  The database is an association list with one entry per key; \<open>readFaults\<close> and
  \<open>writeFaults\<close> are the keys on which the engine reports a fault.
\<close>

type_synonym Batch = "(key \<times> bytes) list"

record Storage =
  db :: "(key \<times> bytes) list"
  readFaults :: "key set"
  writeFaults :: "key set"

definition Storage_get :: "Storage \<Rightarrow> keycode \<Rightarrow> bytes \<Rightarrow> error + bytes" where
  "Storage_get s code k =
     (let prefixedKey = makePrefix code k in
      if prefixedKey \<in> readFaults s then Inl EngineFault
      else case map_of (db s) prefixedKey of
             None \<Rightarrow> Inl NotFound
           | Some data \<Rightarrow> Inr data)"

definition Storage_set ::
  "Storage \<Rightarrow> keycode \<Rightarrow> bytes \<Rightarrow> bytes \<Rightarrow> Batch option \<Rightarrow> error + (Storage \<times> Batch option)" where
  "Storage_set s code k v batch =
     (let prefixedKey = makePrefix code k in
      if prefixedKey \<in> writeFaults s then Inl EngineFault
      else case batch of
             Some b \<Rightarrow> Inr (s, Some (b @ [(prefixedKey, v)]))
           | None \<Rightarrow> Inr (s\<lparr>db := AList.update prefixedKey v (db s)\<rparr>, None))"

text \<open>Committing a batch applies its writes to the database in order, as one unit.\<close>

definition Batch_Commit :: "Batch \<Rightarrow> Storage \<Rightarrow> Storage" where
  "Batch_Commit b s = s\<lparr>db := foldl (\<lambda>d (k, v). AList.update k v d) (db s) b\<rparr>"

definition emptyStorage :: Storage where
  "emptyStorage = \<lparr>db = [], readFaults = {}, writeFaults = {}\<rparr>"

section \<open>Block index (blocks.go)\<close>

text \<open>
  \<open>types.Block\<close> belongs to an external library. The index reads its \<open>Height\<close> field and
  calls \<open>ToBytes\<close>, \<open>Hash\<close> and \<open>NewBlockFromBytes\<close>; the remaining fields are kept
  together in \<open>Rest\<close>, and the three library functions are parameters.
\<close>

record Block =
  Height :: uint64
  Rest :: bytes

record BlockLib =
  ToBytes :: "Block \<Rightarrow> error + bytes"
  Hash :: "Block \<Rightarrow> error + bytes"
  NewBlockFromBytes :: "bytes \<Rightarrow> error + Block"

text \<open>
  \<open>heightCache\<close> is a Go \<open>map[byte]uint64\<close>; reading an absent key gives 0, so it is a
  total function.
\<close>

record Blocks =
  store :: Storage
  heightCache :: "keycode \<Rightarrow> uint64"

definition Blocks_setLastHeight :: "uint64 \<Rightarrow> Blocks \<Rightarrow> error option \<times> Blocks" where
  "Blocks_setLastHeight height b =
     (case Storage_set (store b) latestEVMHeightKey [] (uint64Bytes height) None of
        Inl err \<Rightarrow> (Some err, b)
      | Inr (s, _) \<Rightarrow>
          (None, b\<lparr>store := s, heightCache := (heightCache b)(latestEVMHeightKey := height)\<rparr>))"

definition Blocks_Store :: "BlockLib \<Rightarrow> uint64 \<Rightarrow> Block \<Rightarrow> Blocks \<Rightarrow> error option \<times> Blocks" where
  "Blocks_Store lib cadenceHeight block b =
     (case ToBytes lib block of
        Inl err \<Rightarrow> (Some err, b)
      | Inr val \<Rightarrow>
     (case Hash lib block of
        Inl err \<Rightarrow> (Some err, b)
      | Inr ident \<Rightarrow>
     (let evmHeight = uint64Bytes (Height block) in
      case Storage_set (store b) blockHeightKey evmHeight val None of
        Inl err \<Rightarrow> (Some err, b)
      | Inr (s1, _) \<Rightarrow>
     (case Storage_set s1 blockIDToHeightKey ident evmHeight None of
        Inl err \<Rightarrow> (Some err, b\<lparr>store := s1\<rparr>)
      | Inr (s2, _) \<Rightarrow>
     (case Storage_set s2 evmHeightToCadenceHeightKey evmHeight (uint64Bytes cadenceHeight) None of
        Inl err \<Rightarrow> (Some err, b\<lparr>store := s2\<rparr>)
      | Inr (s3, _) \<Rightarrow> Blocks_setLastHeight (Height block) (b\<lparr>store := s3\<rparr>))))))"

definition Blocks_getHeight :: "keycode \<Rightarrow> Blocks \<Rightarrow> (error + uint64) \<times> Blocks" where
  "Blocks_getHeight keyCode b =
     (if heightCache b keyCode \<noteq> 0 then (Inr (heightCache b keyCode), b)
      else case Storage_get (store b) keyCode [] of
             Inl err \<Rightarrow>
               if errorsIs err NotFound then (Inl NotInitialized, b)
               else (Inl (Wrapf ''failed to get height'' err), b)
           | Inr val \<Rightarrow>
               (case bigEndianUint64 val of
                  None \<Rightarrow> (Inl (Panic ''index out of range''), b)
                | Some h \<Rightarrow> (Inr h, b\<lparr>heightCache := (heightCache b)(keyCode := h)\<rparr>)))"

definition Blocks_LatestEVMHeight :: "Blocks \<Rightarrow> (error + uint64) \<times> Blocks" where
  "Blocks_LatestEVMHeight b = Blocks_getHeight latestEVMHeightKey b"

definition Blocks_FirstEVMHeight :: "Blocks \<Rightarrow> (error + uint64) \<times> Blocks" where
  "Blocks_FirstEVMHeight b = Blocks_getHeight firstEVMHeightKey b"

definition Blocks_getBlock :: "BlockLib \<Rightarrow> keycode \<Rightarrow> bytes \<Rightarrow> Blocks \<Rightarrow> error + Block" where
  "Blocks_getBlock lib keyCode k b =
     (case Storage_get (store b) keyCode k of
        Inl err \<Rightarrow> Inl err
      | Inr data \<Rightarrow> NewBlockFromBytes lib data)"

definition Blocks_GetByHeight :: "BlockLib \<Rightarrow> uint64 \<Rightarrow> Blocks \<Rightarrow> (error + Block) \<times> Blocks" where
  "Blocks_GetByHeight lib height b =
     (case Blocks_FirstEVMHeight b of
        (Inl err, b1) \<Rightarrow> (Inl err, b1)
      | (Inr firstH, b1) \<Rightarrow>
     (case Blocks_LatestEVMHeight b1 of
        (Inl err, b2) \<Rightarrow> (Inl err, b2)
      | (Inr lastH, b2) \<Rightarrow>
          if height < firstH \<or> height > lastH then (Inl NotFound, b2)
          else (Blocks_getBlock lib blockHeightKey (uint64Bytes height) b2, b2)))"

definition Blocks_GetByID :: "BlockLib \<Rightarrow> bytes \<Rightarrow> Blocks \<Rightarrow> error + Block" where
  "Blocks_GetByID lib ident b =
     (case Storage_get (store b) blockIDToHeightKey ident of
        Inl err \<Rightarrow> Inl err
      | Inr height \<Rightarrow> Blocks_getBlock lib blockHeightKey height b)"

definition Blocks_storeInitHeight :: "uint64 \<Rightarrow> Blocks \<Rightarrow> error option \<times> Blocks" where
  "Blocks_storeInitHeight height b =
     (let err1 = (case Storage_get (store b) firstEVMHeightKey [] of
                    Inl err \<Rightarrow> Some err | Inr _ \<Rightarrow> None) in
      if err1 \<noteq> None \<and> \<not> errorsIs (the err1) NotFound
      then (Some (Errorf ''existing first height can not be overwritten''), b)
      else
     (let err2 = (case Storage_get (store b) latestEVMHeightKey [] of
                    Inl err \<Rightarrow> Some err | Inr _ \<Rightarrow> None) in
      if err2 \<noteq> None \<and> \<not> errorsIs (the err2) NotFound
      then (Some (Errorf ''existing latest height can not be overwritten''), b)
      else
     (case Storage_set (store b) firstEVMHeightKey [] (uint64Bytes height) None of
        Inl err \<Rightarrow> (Some err, b)
      | Inr (s1, _) \<Rightarrow>
     (case Storage_set s1 latestEVMHeightKey [] (uint64Bytes height) None of
        Inl err \<Rightarrow> (Some err, b\<lparr>store := s1\<rparr>)
      | Inr (s2, _) \<Rightarrow> (None, b\<lparr>store := s2\<rparr>)))))"

text \<open>
  \<open>NewBlocks\<close> starts from an empty cache and applies the options in order, stopping at
  the first error; \<open>WithInitHeight\<close> is the option that calls \<open>storeInitHeight\<close>.
\<close>

type_synonym BlockOption = "Blocks \<Rightarrow> error option \<times> Blocks"

definition WithInitHeight :: "uint64 \<Rightarrow> BlockOption" where
  "WithInitHeight height = (\<lambda>block. Blocks_storeInitHeight height block)"

fun applyOptions :: "BlockOption list \<Rightarrow> Blocks \<Rightarrow> error + Blocks" where
  "applyOptions [] blk = Inr blk"
| "applyOptions (opt # opts) blk =
     (case opt blk of
        (Some err, _) \<Rightarrow> Inl err
      | (None, blk') \<Rightarrow> applyOptions opts blk')"

definition NewBlocks :: "Storage \<Rightarrow> BlockOption list \<Rightarrow> error + Blocks" where
  "NewBlocks st opts = applyOptions opts \<lparr>store = st, heightCache = (\<lambda>_. 0)\<rparr>"

text \<open>
  The invariant that ties the height cache to the store: the cache entry of a watermark is
  empty (0), or the store holds bytes for the watermark that decode to the cached value.
\<close>

definition cacheCoherent :: "Blocks \<Rightarrow> keycode \<Rightarrow> bool" where
  "cacheCoherent b keyCode =
     (heightCache b keyCode = 0
      \<or> Option.bind (map_of (db (store b)) (makePrefix keyCode [])) bigEndianUint64
          = Some (heightCache b keyCode))"

section \<open>Receipt index (receipts.go)\<close>

text \<open>
  \<open>gethTypes.Log\<close> of the external library. \<open>Address\<close>, \<open>Topics\<close> and \<open>Data\<close> are the
  persisted fields; the others are derived and filled in when receipts are read. \<open>TxIndex\<close>
  and \<open>Index\<close> are Go \<open>uint\<close> values that hold a position in a slice, which never
  exceeds the range of \<open>uint\<close>, so they are natural numbers here.
\<close>

record Log =
  Address :: bytes
  Topics :: "bytes list"
  Data :: bytes
  BlockNumber :: uint64
  TxHash :: bytes
  TxIndex :: nat
  BlockHash :: bytes
  Index :: nat
  Removed :: bool

text \<open>
  Modelled from the spec: the declaration of \<open>models.StorageReceipt\<close> is not among the
  sources. The record has the fields receipts.go reads (a receipt has a transaction hash, a
  bloom filter, log entries, and the hash, number and index that place it in its block) and
  two of the remaining ones. \<open>BlockNumber\<close> is a \<open>*big.Int\<close>, an unbounded integer.
\<close>

record StorageReceipt =
  Status :: uint64
  CumulativeGasUsed :: uint64
  Bloom :: bytes
  Logs :: "Log list"
  TxHash :: bytes
  BlockHash :: bytes
  BlockNumber :: int
  TransactionIndex :: nat

text \<open>\<open>big.Int.Uint64\<close>: the low 64 bits of the absolute value.\<close>

definition BigInt_Uint64 :: "int \<Rightarrow> uint64" where
  "BigInt_Uint64 x = word_of_int \<bar>x\<bar>"

text \<open>The RLP encoder and decoder of the external library, as parameters.\<close>

record RlpLib =
  EncodeReceipts :: "StorageReceipt list \<Rightarrow> error + bytes"
  EncodeBlooms :: "bytes list \<Rightarrow> error + bytes"
  DecodeReceipts :: "bytes \<Rightarrow> error + StorageReceipt list"
  DecodeBlooms :: "bytes \<Rightarrow> error + bytes list"

record BloomsHeight =
  Blooms :: "bytes list"
  Height :: uint64

text \<open>
  The loop of \<open>Receipts.Store\<close> over the receipts, with the variables \<open>blooms\<close> and
  \<open>height\<close> it updates and the store and batch it writes to. The writes made before an
  error stay in the store or batch.
\<close>

fun Receipts_Store_loop ::
  "StorageReceipt list \<Rightarrow> bytes list \<Rightarrow> uint64 \<Rightarrow> Storage \<Rightarrow> Batch option \<Rightarrow>
     error option \<times> bytes list \<times> uint64 \<times> Storage \<times> Batch option" where
  "Receipts_Store_loop [] blooms height s batch = (None, blooms, height, s, batch)"
| "Receipts_Store_loop (receipt # rest) blooms height s batch =
     (let h = BigInt_Uint64 (StorageReceipt.BlockNumber receipt) in
      if height \<noteq> 0 \<and> h \<noteq> height
      then (Some (Errorf ''can't store receipts for multiple heights''), blooms, height, s, batch)
      else
        (case Storage_set s receiptTxIDToHeightKey (StorageReceipt.TxHash receipt)
                (uint64Bytes h) batch of
           Inl err \<Rightarrow>
             (Some (Wrapf ''failed to store receipt tx ID to height mapping'' err),
              blooms @ [Bloom receipt], h, s, batch)
         | Inr (s', batch') \<Rightarrow>
             Receipts_Store_loop rest (blooms @ [Bloom receipt]) h s' batch'))"

definition Receipts_Store ::
  "RlpLib \<Rightarrow> StorageReceipt list \<Rightarrow> Batch option \<Rightarrow> Storage \<Rightarrow>
     error option \<times> Storage \<times> Batch option" where
  "Receipts_Store lib receipts batch s =
     (case Receipts_Store_loop receipts [] 0 s batch of
        (Some err, _, _, s1, b1) \<Rightarrow> (Some err, s1, b1)
      | (None, blooms, height, s1, b1) \<Rightarrow>
     (case EncodeReceipts lib receipts of
        Inl err \<Rightarrow> (Some err, s1, b1)
      | Inr receiptBytes \<Rightarrow>
     (let heightBytes = uint64Bytes height in
      case Storage_set s1 receiptHeightKey heightBytes receiptBytes b1 of
        Inl err \<Rightarrow> (Some (Wrapf ''failed to store receipt height'' err), s1, b1)
      | Inr (s2, b2) \<Rightarrow>
     (case EncodeBlooms lib blooms of
        Inl err \<Rightarrow> (Some (Wrapf ''failed to encode blooms for height'' err), s2, b2)
      | Inr bloomBytes \<Rightarrow>
     (case Storage_set s2 bloomHeightKey heightBytes bloomBytes b2 of
        Inl err \<Rightarrow> (Some (Wrapf ''failed to store blooms at height'' err), s2, b2)
      | Inr (s3, b3) \<Rightarrow> (None, s3, b3))))))"

text \<open>
  Modelled from the spec: \<open>Storage.batchGet\<close> (storage.go) is not among the sources and the
  spec does not describe it; it is the engine's read through a batch: the last pending
  write of the batch to the key, and the database when the batch has none. Both callers of
  \<open>getByBlockHeight\<close> in the sources pass no batch.
\<close>

definition Storage_batchGet :: "Storage \<Rightarrow> Batch \<Rightarrow> keycode \<Rightarrow> bytes \<Rightarrow> error + bytes" where
  "Storage_batchGet s batch code k =
     (let prefixedKey = makePrefix code k in
      if prefixedKey \<in> readFaults s then Inl EngineFault
      else case map_of (rev batch) prefixedKey of
             Some data \<Rightarrow> Inr data
           | None \<Rightarrow>
               (case map_of (db s) prefixedKey of
                  None \<Rightarrow> Inl NotFound
                | Some data \<Rightarrow> Inr data))"

text \<open>
  The two nested loops at the end of \<open>getByBlockHeight\<close>: every log of a receipt gets its
  derived fields from the receipt, and its position among the receipt's logs as index.
\<close>

definition populateLog :: "StorageReceipt \<Rightarrow> nat \<Rightarrow> Log \<Rightarrow> Log" where
  "populateLog rcp i l =
     l\<lparr>Log.BlockHash := StorageReceipt.BlockHash rcp,
       Log.BlockNumber := BigInt_Uint64 (StorageReceipt.BlockNumber rcp),
       Log.TxHash := StorageReceipt.TxHash rcp,
       TxIndex := TransactionIndex rcp,
       Index := i\<rparr>"

definition populateLogs :: "StorageReceipt \<Rightarrow> StorageReceipt" where
  "populateLogs rcp = rcp\<lparr>Logs := map (\<lambda>(i, l). populateLog rcp i l) (enumerate 0 (Logs rcp))\<rparr>"

definition Receipts_getByBlockHeight ::
  "RlpLib \<Rightarrow> bytes \<Rightarrow> Batch option \<Rightarrow> Storage \<Rightarrow> error + StorageReceipt list" where
  "Receipts_getByBlockHeight lib height batch s =
     (case (case batch of
              Some b \<Rightarrow> Storage_batchGet s b receiptHeightKey height
            | None \<Rightarrow> Storage_get s receiptHeightKey height) of
        Inl err \<Rightarrow> Inl err
      | Inr val \<Rightarrow>
          (case DecodeReceipts lib val of
             Inl err \<Rightarrow> Inl (Wrapf ''failed to RLP-decode block receipts'' err)
           | Inr receipts \<Rightarrow> Inr (map populateLogs receipts)))"

definition Receipts_GetByBlockHeight ::
  "RlpLib \<Rightarrow> uint64 \<Rightarrow> Storage \<Rightarrow> error + StorageReceipt list" where
  "Receipts_GetByBlockHeight lib height s =
     Receipts_getByBlockHeight lib (uint64Bytes height) None s"

definition Receipts_GetByTransactionID ::
  "RlpLib \<Rightarrow> bytes \<Rightarrow> Storage \<Rightarrow> error + StorageReceipt" where
  "Receipts_GetByTransactionID lib ident s =
     (case Storage_get s receiptTxIDToHeightKey ident of
        Inl err \<Rightarrow> Inl (Wrapf ''failed to get receipt by tx ID'' err)
      | Inr height \<Rightarrow>
          (case Receipts_getByBlockHeight lib height None s of
             Inl err \<Rightarrow> Inl (Wrapf ''failed to get receipt by height'' err)
           | Inr receipts \<Rightarrow>
               (case find (\<lambda>rcp. StorageReceipt.TxHash rcp = ident) receipts of
                  Some rcp \<Rightarrow> Inr rcp
                | None \<Rightarrow> Inl NotFound)))"

definition Receipts_getLast :: "Storage \<Rightarrow> error + uint64" where
  "Receipts_getLast s =
     (case Storage_get s latestEVMHeightKey [] of
        Inl err \<Rightarrow> Inl (Wrapf ''failed getting latest EVM height'' err)
      | Inr l \<Rightarrow>
          (case bigEndianUint64 l of
             None \<Rightarrow> Inl (Panic ''index out of range'')
           | Some h \<Rightarrow> Inr h))"

text \<open>
  The engine's iterator over the keys from \<open>LowerBound\<close> (inclusive) to \<open>UpperBound\<close>
  (exclusive), in ascending byte order. \<open>BloomsForBlockRange\<close> makes both bounds with the
  same key code, so the keys between them are the keys with that code whose remaining bytes
  lie between the remaining bytes of the bounds.
\<close>

definition NewIter :: "Storage \<Rightarrow> key \<Rightarrow> key \<Rightarrow> (key \<times> bytes) list" where
  "NewIter s LowerBound UpperBound =
     sort_key (\<lambda>e. snd (fst e))
       (filter (\<lambda>e. fst (fst e) = fst LowerBound \<and> snd LowerBound \<le> snd (fst e)
                    \<and> snd (fst e) < snd UpperBound) (db s))"

text \<open>The loop of \<open>BloomsForBlockRange\<close> over the entries the iterator visits.\<close>

fun BloomsForBlockRange_loop ::
  "RlpLib \<Rightarrow> Storage \<Rightarrow> (key \<times> bytes) list \<Rightarrow> BloomsHeight list \<Rightarrow> error + BloomsHeight list" where
  "BloomsForBlockRange_loop lib s [] bloomsHeights = Inr bloomsHeights"
| "BloomsForBlockRange_loop lib s ((k, val) # rest) bloomsHeights =
     (if k \<in> readFaults s then Inl EngineFault
      else
        (let height = stripPrefix k in
         case DecodeBlooms lib val of
           Inl err \<Rightarrow> Inl (Wrapf ''failed to RLP-decode blooms for range'' err)
         | Inr bloomsHeight \<Rightarrow>
             (case bigEndianUint64 height of
                None \<Rightarrow> Inl (Panic ''index out of range'')
              | Some hh \<Rightarrow>
                  BloomsForBlockRange_loop lib s rest
                    (bloomsHeights @ [\<lparr>Blooms = bloomsHeight, Height = hh\<rparr>]))))"

definition Receipts_BloomsForBlockRange ::
  "RlpLib \<Rightarrow> uint64 \<Rightarrow> uint64 \<Rightarrow> Storage \<Rightarrow> error + BloomsHeight list" where
  "Receipts_BloomsForBlockRange lib start endH s =
     (if start > endH
      then Inl (Wrapf ''start value is bigger than end value'' ErrInvalidBlockRange)
      else
        (case Receipts_getLast s of
           Inl err \<Rightarrow> Inl (Wrapf ''failed getting first and last height'' err)
         | Inr lastH \<Rightarrow>
             if start > lastH
             then Inl (Wrapf ''start value is not within the indexed range'' ErrInvalidBlockRange)
             else if endH > lastH
             then Inl (Wrapf ''end value is not within the indexed range'' ErrInvalidBlockRange)
             else
               (let endInclusive = endH + 1;
                    iterator = NewIter s (makePrefix bloomHeightKey (uint64Bytes start))
                                         (makePrefix bloomHeightKey (uint64Bytes endInclusive))
                in BloomsForBlockRange_loop lib s iterator [])))"

section \<open>Cross-spork router\<close>

text \<open>
  Modelled from the spec: the source of \<open>CrossSporkClient\<close> (\<open>NewCrossSporkClient\<close>,
  \<open>AddSpork\<close>, \<open>getClientForHeight\<close>) is not among the sources, only its tests are. The spec
  gives the state as an ascending-ordered set of boundaries (lastHeight, endpoint) plus one
  current endpoint; \<open>AddSpork\<close> inserts a boundary keeping the order and fails if the
  lastHeight is already registered; \<open>getClientForHeight\<close> returns the endpoint of the first
  boundary with lastHeight at or above the height, and the current endpoint if there is none.
  An endpoint is identified by its host name.
\<close>

record CrossSporkClient =
  currentHost :: string
  sporkHosts :: "(uint64 \<times> string) list"

definition NewCrossSporkClient :: "string \<Rightarrow> CrossSporkClient" where
  "NewCrossSporkClient host = \<lparr>currentHost = host, sporkHosts = []\<rparr>"

definition AddSpork :: "uint64 \<Rightarrow> string \<Rightarrow> CrossSporkClient \<Rightarrow> error + CrossSporkClient" where
  "AddSpork lastHeight host c =
     (if lastHeight \<in> set (map fst (sporkHosts c))
      then Inl (Errorf ''provided last height already exists'')
      else Inr (c\<lparr>sporkHosts := insort_key fst (lastHeight, host) (sporkHosts c)\<rparr>))"

definition getClientForHeight :: "uint64 \<Rightarrow> CrossSporkClient \<Rightarrow> string" where
  "getClientForHeight height c =
     (case find (\<lambda>boundary. fst boundary \<ge> height) (sporkHosts c) of
        Some boundary \<Rightarrow> snd boundary
      | None \<Rightarrow> currentHost c)"

section \<open>Building the call transaction (encode_transaction.go)\<close>

text \<open>
  \<open>TransactionArgs\<close> is declared outside the sources; the record has the fields
  \<open>encodeTxFromArgs\<close> reads, each a pointer that may be nil. \<open>LegacyTx\<close> and
  \<open>Transaction.MarshalBinary\<close> belong to the external library: the encoder is a parameter,
  and \<open>NewTx\<close> copies the transaction with the signature values V, R, S it does not set
  equal to zero.
\<close>

record TransactionArgs =
  To :: "bytes option"
  Gas :: "uint64 option"
  Value :: "int option"
  Data :: "bytes option"
  Input :: "bytes option"

record LegacyTx =
  Nonce :: uint64
  GasPrice :: int
  Gas :: uint64
  To :: "bytes option"
  Value :: int
  Data :: bytes
  V :: int
  R :: int
  S :: int

definition blockGasLimit :: uint64 where
  "blockGasLimit = 15000000"

definition encodeTxFromArgs ::
  "(LegacyTx \<Rightarrow> error + bytes) \<Rightarrow> TransactionArgs \<Rightarrow> error + bytes" where
  "encodeTxFromArgs MarshalBinary args =
     (let data = (case TransactionArgs.Data args of
                    Some d \<Rightarrow> d
                  | None \<Rightarrow> (case Input args of Some i \<Rightarrow> i | None \<Rightarrow> []));
          gasLimit = (case TransactionArgs.Gas args of Some g \<Rightarrow> g | None \<Rightarrow> blockGasLimit);
          value = (case TransactionArgs.Value args of Some v \<Rightarrow> v | None \<Rightarrow> 0);
          tx = \<lparr>Nonce = 0, GasPrice = 0, Gas = gasLimit, To = TransactionArgs.To args,
                Value = value, Data = data, V = 0, R = 0, S = 0\<rparr>
      in case MarshalBinary tx of
           Inl err \<Rightarrow> Inl (Wrap2 ErrInvalid err)
         | Inr enc \<Rightarrow> Inr enc)"

section \<open>Concrete values for evaluation\<close>

text \<open>
  A block library that can be run: the payload is the height followed by the remaining
  bytes, and the remaining bytes stand for the hash.
\<close>

definition testBlockLib :: BlockLib where
  "testBlockLib =
     \<lparr>ToBytes = (\<lambda>b. Inr (uint64Bytes (Block.Height b) @ Rest b)),
      Hash = (\<lambda>b. Inr (Rest b)),
      NewBlockFromBytes = (\<lambda>d. case bigEndianUint64 d of
                                  None \<Rightarrow> Inl CodecFault
                                | Some h \<Rightarrow> Inr \<lparr>Block.Height = h, Rest = drop 8 d\<rparr>)\<rparr>"

text \<open>The block index after \<open>WithInitHeight 5\<close> on an empty store.\<close>

definition initialised5 :: Blocks where
  "initialised5 =
     \<lparr>store = \<lparr>db = [((firstEVMHeightKey, []), uint64Bytes 5),
                      ((latestEVMHeightKey, []), uint64Bytes 5)],
                readFaults = {}, writeFaults = {}\<rparr>,
      heightCache = (\<lambda>_. 0)\<rparr>"

text \<open>
  A block index with watermarks first = 2 and latest = 5, a block stored at height 3 and
  stray block bytes at height 9.
\<close>

definition indexed2to5 :: Blocks where
  "indexed2to5 =
     \<lparr>store = \<lparr>db = [((firstEVMHeightKey, []), uint64Bytes 2),
                      ((latestEVMHeightKey, []), uint64Bytes 5),
                      ((blockHeightKey, uint64Bytes 3), uint64Bytes 3 @ [7]),
                      ((blockHeightKey, uint64Bytes 9), uint64Bytes 9 @ [8])],
                readFaults = {}, writeFaults = {}\<rparr>,
      heightCache = (\<lambda>_. 0)\<rparr>"

text \<open>
  An RLP library that can be run: every list encodes to fixed bytes, which decode to a
  fixed list.
\<close>

definition fixedRlp :: "bytes \<Rightarrow> bytes \<Rightarrow> StorageReceipt list \<Rightarrow> bytes list \<Rightarrow> RlpLib" where
  "fixedRlp rb bb rs bs =
     \<lparr>EncodeReceipts = (\<lambda>_. Inr rb),
      EncodeBlooms = (\<lambda>_. Inr bb),
      DecodeReceipts = (\<lambda>d. if d = rb then Inr rs else Inl CodecFault),
      DecodeBlooms = (\<lambda>d. if d = bb then Inr bs else Inl CodecFault)\<rparr>"

text \<open>A receipt without logs at a block number, with a transaction hash.\<close>

definition receiptAt :: "int \<Rightarrow> bytes \<Rightarrow> StorageReceipt" where
  "receiptAt n txHash =
     \<lparr>Status = 1, CumulativeGasUsed = 0, Bloom = [], Logs = [], TxHash = txHash,
      BlockHash = [], BlockNumber = n, TransactionIndex = 0\<rparr>"

text \<open>
  The router of the test scenario: current endpoint test1.com, boundaries (100, test2.com)
  and (200, test3.com).
\<close>

definition twoSporks :: CrossSporkClient where
  "twoSporks = \<lparr>currentHost = ''test1.com'',
                sporkHosts = [(100, ''test2.com''), (200, ''test3.com'')]\<rparr>"

text \<open>
  An encoder that can be run: it rejects a negative value and otherwise writes the gas
  limit followed by the payload.
\<close>

definition sizeMarshal :: "LegacyTx \<Rightarrow> error + bytes" where
  "sizeMarshal tx = (if LegacyTx.Value tx < 0 then Inl CodecFault
                     else Inr (uint64Bytes (LegacyTx.Gas tx) @ LegacyTx.Data tx))"

text \<open>
  A log as the decoder returns it, with the derived fields at their zero values, and a
  receipt at block number 5 with given logs.
\<close>

definition decodedLog :: "bytes \<Rightarrow> bytes list \<Rightarrow> bytes \<Rightarrow> Log" where
  "decodedLog a t d =
     \<lparr>Address = a, Topics = t, Data = d, BlockNumber = 0, TxHash = [], TxIndex = 0,
      BlockHash = [], Index = 0, Removed = False\<rparr>"

definition receiptWithLogs :: "Log list \<Rightarrow> StorageReceipt" where
  "receiptWithLogs ls =
     \<lparr>Status = 1, CumulativeGasUsed = 21000, Bloom = [4], Logs = ls, TxHash = [11],
      BlockHash = [12], BlockNumber = 5, TransactionIndex = 2\<rparr>"

text \<open>
  A store whose latest height is the largest 64-bit value, with a bloom entry at that
  height; and a store whose latest height is 7, with bloom entries at heights 5, 6 and 7.
\<close>

definition bloomsAtMaxHeight :: Storage where
  "bloomsAtMaxHeight =
     \<lparr>db = [((latestEVMHeightKey, []), uint64Bytes 18446744073709551615),
             ((bloomHeightKey, uint64Bytes 18446744073709551615), [2])],
      readFaults = {}, writeFaults = {}\<rparr>"

definition bloomsAt5and6 :: Storage where
  "bloomsAt5and6 =
     \<lparr>db = [((latestEVMHeightKey, []), uint64Bytes 7),
             ((bloomHeightKey, uint64Bytes 6), [2]),
             ((bloomHeightKey, uint64Bytes 5), [2]),
             ((bloomHeightKey, uint64Bytes 7), [2]),
             ((receiptHeightKey, uint64Bytes 5), [1])],
      readFaults = {}, writeFaults = {}\<rparr>"

section \<open>Properties of the block index\<close>

text \<open>
  C3 (code evaluated at the failing input). \<open>WithInitHeight\<close> is documented to return an
  error when the first and last heights are already set. \<open>storeInitHeight\<close> only returns
  its "can not be overwritten" errors when the read fails with an error other than
  not-found; when the key is present the read returns no error and the heights are
  overwritten. Applying \<open>WithInitHeight 5\<close> and then \<open>WithInitHeight 7\<close> to an empty
  store returns no error and leaves first = latest = 7.
\<close>

theorem storeInitHeight_twice_overwrites:
  "NewBlocks emptyStorage [WithInitHeight 5, WithInitHeight 7] =
     Inr \<lparr>store = \<lparr>db = [((firstEVMHeightKey, []), uint64Bytes 7),
                             ((latestEVMHeightKey, []), uint64Bytes 7)],
                       readFaults = {}, writeFaults = {}\<rparr>,
          heightCache = (\<lambda>_. 0)\<rparr>"
  by (simp add: NewBlocks_def WithInitHeight_def Blocks_storeInitHeight_def Storage_get_def
      Storage_set_def emptyStorage_def makePrefix_def)

text \<open>Reading back a height written by \<open>uint64Bytes\<close> gives the height.\<close>

lemma bigEndianUint64_uint64Bytes: "bigEndianUint64 (uint64Bytes h) = Some h"
proof -
  have "bit (ucast (ucast h :: byte) OR push_bit 8 (ucast (ucast (drop_bit 8 h) :: byte))
           OR push_bit 16 (ucast (ucast (drop_bit 16 h) :: byte))
           OR push_bit 24 (ucast (ucast (drop_bit 24 h) :: byte))
           OR push_bit 32 (ucast (ucast (drop_bit 32 h) :: byte))
           OR push_bit 40 (ucast (ucast (drop_bit 40 h) :: byte))
           OR push_bit 48 (ucast (ucast (drop_bit 48 h) :: byte))
           OR push_bit 56 (ucast (ucast (drop_bit 56 h) :: byte)) :: uint64) n = bit h n"
    if n: "n < 64" for n
  proof -
    consider "n < 8" | "8 \<le> n" "n < 16" | "16 \<le> n" "n < 24" | "24 \<le> n" "n < 32"
      | "32 \<le> n" "n < 40" | "40 \<le> n" "n < 48" | "48 \<le> n" "n < 56" | "56 \<le> n" "n < 64"
      using n by linarith
    then show ?thesis
      by cases (simp_all add: bit_or_iff bit_push_bit_iff bit_ucast_iff bit_drop_bit_eq less_diff_conv2)
  qed
  then show ?thesis
    unfolding uint64Bytes_def by simp (rule bit_word_eqI, simp)
qed

text \<open>
  \<open>getHeight\<close> returns the stored watermark when the cache entry is empty (0) or equal to
  it; it leaves the store and the other cache entries as they are.
\<close>

lemma getHeight_stored:
  assumes "Storage_get (store b) keyCode [] = Inr v" "bigEndianUint64 v = Some h"
    and "heightCache b keyCode = 0 \<or> heightCache b keyCode = h"
  shows "fst (Blocks_getHeight keyCode b) = Inr h"
    and "store (snd (Blocks_getHeight keyCode b)) = store b"
    and "\<And>k. k \<noteq> keyCode \<Longrightarrow> heightCache (snd (Blocks_getHeight keyCode b)) k = heightCache b k"
  using assms by (auto simp: Blocks_getHeight_def)

text \<open>
  A coherent cache entry is empty or equal to the stored watermark.
\<close>

lemma cacheCoherent_stored:
  assumes "cacheCoherent b keyCode" "Storage_get (store b) keyCode [] = Inr v"
    "bigEndianUint64 v = Some h"
  shows "heightCache b keyCode = 0 \<or> heightCache b keyCode = h"
  using assms
  by (auto simp: cacheCoherent_def Storage_get_def Let_def split: if_splits option.splits)

text \<open>
  \<open>storeInitHeight\<close> does not touch the cache.
\<close>

lemma storeInitHeight_cache:
  "heightCache (snd (Blocks_storeInitHeight h b)) = heightCache b"
  by (simp add: Blocks_storeInitHeight_def Let_def Storage_set_def split: sum.splits option.splits)

text \<open>
  The option \<open>WithInitHeight\<close> is \<open>storeInitHeight\<close>.
\<close>

lemma WithInitHeight_eq: "WithInitHeight = Blocks_storeInitHeight"
  by (rule ext) (simp add: WithInitHeight_def)

text \<open>
  Applying init-height options leaves the cache as it was.
\<close>

lemma applyOptions_WithInitHeight_cache:
  "applyOptions (map WithInitHeight hs) blk = Inr b \<Longrightarrow> heightCache b = heightCache blk"
  unfolding WithInitHeight_eq
proof (induction hs arbitrary: blk)
  case Nil
  then show ?case by simp
next
  case (Cons h hs)
  obtain e blk' where r: "Blocks_storeInitHeight h blk = (e, blk')"
    by (cases "Blocks_storeInitHeight h blk")
  with Cons.prems have "applyOptions (map Blocks_storeInitHeight hs) blk' = Inr b"
    by (cases e) simp_all
  with Cons.IH have "heightCache b = heightCache blk'" by simp
  moreover have "heightCache blk' = heightCache blk"
    using storeInitHeight_cache[of h blk] r by simp
  ultimately show ?case by simp
qed

text \<open>
  A block index made by \<open>NewBlocks\<close> with init-height options has a coherent (empty) cache.
\<close>

lemma cacheCoherent_NewBlocks:
  "NewBlocks st (map WithInitHeight hs) = Inr b \<Longrightarrow> cacheCoherent b keyCode"
  using applyOptions_WithInitHeight_cache[of hs "\<lparr>store = st, heightCache = (\<lambda>_. 0)\<rparr>" b]
  by (simp add: NewBlocks_def cacheCoherent_def)

text \<open>
  Reading a height keeps the cache coherent: a miss caches the value the store holds.
\<close>

lemma cacheCoherent_getHeight:
  assumes "cacheCoherent b keyCode"
  shows "cacheCoherent (snd (Blocks_getHeight k b)) keyCode"
proof (cases "heightCache b k \<noteq> 0")
  case True
  then show ?thesis using assms by (simp add: Blocks_getHeight_def)
next
  case False
  show ?thesis
  proof (cases "Storage_get (store b) k []")
    case (Inl err)
    then show ?thesis using False assms by (simp add: Blocks_getHeight_def)
  next
    case (Inr val)
    then have m: "map_of (db (store b)) (makePrefix k []) = Some val"
      by (simp add: Storage_get_def Let_def split: if_splits option.splits)
    show ?thesis
    proof (cases "bigEndianUint64 val")
      case None
      then show ?thesis using False Inr assms by (simp add: Blocks_getHeight_def)
    next
      case (Some h)
      then have r: "snd (Blocks_getHeight k b) = b\<lparr>heightCache := (heightCache b)(k := h)\<rparr>"
        using False Inr by (simp add: Blocks_getHeight_def)
      show ?thesis
        unfolding r using assms m Some by (cases "keyCode = k") (simp_all add: cacheCoherent_def)
    qed
  qed
qed

text \<open>
  The store after a write without a batch.
\<close>

lemma Storage_set_None:
  "Storage_set s code k v None = Inr (s', bt) \<Longrightarrow>
   s' = s\<lparr>db := AList.update (code, k) v (db s)\<rparr>"
  by (simp add: Storage_set_def Let_def makePrefix_def split: if_splits)

text \<open>
  A write under another key code does not affect the coherence of a cache entry.
\<close>

lemma cacheCoherent_other_write:
  assumes "cacheCoherent b keyCode" "code \<noteq> keyCode"
    "Storage_set (store b) code k v None = Inr (s', bt)"
  shows "cacheCoherent (b\<lparr>store := s'\<rparr>) keyCode"
  using assms(1,2) unfolding Storage_set_None[OF assms(3)]
  by (simp add: cacheCoherent_def makePrefix_def update_conv')

text \<open>
  \<open>setLastHeight\<close> writes the latest height to the store and to the cache together.
\<close>

lemma cacheCoherent_setLastHeight:
  assumes "cacheCoherent b keyCode"
  shows "cacheCoherent (snd (Blocks_setLastHeight h b)) keyCode"
proof (cases "Storage_set (store b) latestEVMHeightKey [] (uint64Bytes h) None")
  case (Inl err)
  then show ?thesis using assms by (simp add: Blocks_setLastHeight_def)
next
  case (Inr p)
  obtain s' bt where p: "p = (s', bt)" by (cases p)
  have s': "s' = (store b)\<lparr>db := AList.update (latestEVMHeightKey, []) (uint64Bytes h) (db (store b))\<rparr>"
    using Storage_set_None Inr p by simp
  have r: "snd (Blocks_setLastHeight h b) =
           b\<lparr>store := s', heightCache := (heightCache b)(latestEVMHeightKey := h)\<rparr>"
    using Inr p by (simp add: Blocks_setLastHeight_def)
  show ?thesis
    unfolding r s' using assms
    by (cases "keyCode = latestEVMHeightKey")
       (simp_all add: cacheCoherent_def makePrefix_def update_conv' bigEndianUint64_uint64Bytes)
qed

text \<open>
  \<open>Blocks.Store\<close> keeps the watermark cache coherent, also when it returns an error.
\<close>

lemma cacheCoherent_Store:
  assumes c: "cacheCoherent b keyCode"
    and k: "keyCode = firstEVMHeightKey \<or> keyCode = latestEVMHeightKey"
  shows "cacheCoherent (snd (Blocks_Store lib cadenceHeight block b)) keyCode"
proof -
  have ne: "blockHeightKey \<noteq> keyCode" "blockIDToHeightKey \<noteq> keyCode"
    "evmHeightToCadenceHeightKey \<noteq> keyCode"
    using k by auto
  show ?thesis
  proof (cases "ToBytes lib block")
    case (Inl err)
    then show ?thesis using c by (simp add: Blocks_Store_def)
  next
    case val: (Inr val)
    show ?thesis
    proof (cases "Hash lib block")
      case (Inl err)
      then show ?thesis using c val by (simp add: Blocks_Store_def)
    next
      case ident: (Inr ident)
      show ?thesis
      proof (cases "Storage_set (store b) blockHeightKey (uint64Bytes (Block.Height block)) val None")
        case (Inl err)
        then show ?thesis using c val ident by (simp add: Blocks_Store_def Let_def)
      next
        case w1: (Inr p1)
        obtain s1 t1 where p1: "p1 = (s1, t1)" by (cases p1)
        have c1: "cacheCoherent (b\<lparr>store := s1\<rparr>) keyCode"
          using cacheCoherent_other_write[OF c ne(1)] w1 p1 by simp
        show ?thesis
        proof (cases "Storage_set s1 blockIDToHeightKey ident (uint64Bytes (Block.Height block)) None")
          case (Inl err)
          then show ?thesis using c1 val ident w1 p1 by (simp add: Blocks_Store_def Let_def)
        next
          case w2: (Inr p2)
          obtain s2 t2 where p2: "p2 = (s2, t2)" by (cases p2)
          have c2: "cacheCoherent (b\<lparr>store := s2\<rparr>) keyCode"
            using cacheCoherent_other_write[OF c1 ne(2), of ident "uint64Bytes (Block.Height block)" s2 t2]
              w2 p2 by simp
          show ?thesis
          proof (cases "Storage_set s2 evmHeightToCadenceHeightKey (uint64Bytes (Block.Height block))
                          (uint64Bytes cadenceHeight) None")
            case (Inl err)
            then show ?thesis using c2 val ident w1 p1 w2 p2 by (simp add: Blocks_Store_def Let_def)
          next
            case w3: (Inr p3)
            obtain s3 t3 where p3: "p3 = (s3, t3)" by (cases p3)
            have c3: "cacheCoherent (b\<lparr>store := s3\<rparr>) keyCode"
              using cacheCoherent_other_write[OF c2 ne(3), of "uint64Bytes (Block.Height block)"
                  "uint64Bytes cadenceHeight" s3 t3] w3 p3 by simp
            have "Blocks_Store lib cadenceHeight block b =
                  Blocks_setLastHeight (Block.Height block) (b\<lparr>store := s3\<rparr>)"
              using val ident w1 p1 w2 p2 w3 p3 by (simp add: Blocks_Store_def Let_def)
            then show ?thesis using cacheCoherent_setLastHeight[OF c3] by simp
          qed
        qed
      qed
    qed
  qed
qed

text \<open>
  \<open>GetByHeight\<close> keeps the cache coherent.
\<close>

lemma cacheCoherent_GetByHeight:
  assumes "cacheCoherent b keyCode"
  shows "cacheCoherent (snd (Blocks_GetByHeight lib h b)) keyCode"
proof -
  obtain r1 b1 where g1: "Blocks_getHeight firstEVMHeightKey b = (r1, b1)"
    by (cases "Blocks_getHeight firstEVMHeightKey b")
  have c1: "cacheCoherent b1 keyCode"
    using cacheCoherent_getHeight[OF assms, of firstEVMHeightKey] g1 by simp
  obtain r2 b2 where g2: "Blocks_getHeight latestEVMHeightKey b1 = (r2, b2)"
    by (cases "Blocks_getHeight latestEVMHeightKey b1")
  have c2: "cacheCoherent b2 keyCode"
    using cacheCoherent_getHeight[OF c1, of latestEVMHeightKey] g2 by simp
  show ?thesis
    using c1 c2 g1 g2
    by (cases r1; cases r2)
       (simp_all add: Blocks_GetByHeight_def Blocks_FirstEVMHeight_def Blocks_LatestEVMHeight_def)
qed

text \<open>
  C1 (amended). Let first and latest be the stored watermarks, and let the height cache be
  coherent with the store (each cached watermark empty or equal to the stored one; this
  holds after \<open>NewBlocks\<close> and is kept by \<open>Store\<close>, \<open>GetByHeight\<close> and the height
  reads, see the lemmas above; running the init-height option on a live index can break
  it). For every height h outside [first, latest], \<open>GetByHeight h\<close> returns \<open>NotFound\<close>,
  whatever bytes the store holds for h. For h inside the range it returns what reading and
  decoding the block bytes at h returns, which is an error when the store holds no bytes
  for h or they do not decode. So a call that succeeds has first \<le> h \<le> latest.
\<close>

theorem GetByHeight_watermark_range:
  assumes first: "Storage_get (store b) firstEVMHeightKey [] = Inr fv"
                 "bigEndianUint64 fv = Some firstH"
    and latest: "Storage_get (store b) latestEVMHeightKey [] = Inr lv"
                "bigEndianUint64 lv = Some lastH"
    and cache: "cacheCoherent b firstEVMHeightKey" "cacheCoherent b latestEVMHeightKey"
  shows "(h < firstH \<or> lastH < h \<longrightarrow> fst (Blocks_GetByHeight lib h b) = Inl NotFound)
       \<and> (firstH \<le> h \<and> h \<le> lastH \<longrightarrow>
            fst (Blocks_GetByHeight lib h b) =
              (case Storage_get (store b) blockHeightKey (uint64Bytes h) of
                 Inl err \<Rightarrow> Inl err
               | Inr data \<Rightarrow> NewBlockFromBytes lib data))
       \<and> ((\<exists>blk. fst (Blocks_GetByHeight lib h b) = Inr blk) \<longrightarrow> firstH \<le> h \<and> h \<le> lastH)"
proof -
  note cf = cacheCoherent_stored[OF cache(1) first]
  note cl = cacheCoherent_stored[OF cache(2) latest]
  obtain r1 b1 where g1: "Blocks_getHeight firstEVMHeightKey b = (r1, b1)"
    by (cases "Blocks_getHeight firstEVMHeightKey b")
  have r1: "r1 = Inr firstH" and s1: "store b1 = store b"
    and c1: "heightCache b1 latestEVMHeightKey = heightCache b latestEVMHeightKey"
    using getHeight_stored[OF first cf] g1 by auto
  obtain r2 b2 where g2: "Blocks_getHeight latestEVMHeightKey b1 = (r2, b2)"
    by (cases "Blocks_getHeight latestEVMHeightKey b1")
  have r2: "r2 = Inr lastH" and s2: "store b2 = store b"
    using getHeight_stored(1,2)[of b1 latestEVMHeightKey lv lastH] latest cl g2 s1 c1 by auto
  have res: "fst (Blocks_GetByHeight lib h b) =
      (if h < firstH \<or> lastH < h then Inl NotFound
       else Blocks_getBlock lib blockHeightKey (uint64Bytes h) b2)"
    by (simp add: Blocks_GetByHeight_def Blocks_FirstEVMHeight_def Blocks_LatestEVMHeight_def
        g1 g2 r1 r2)
  show ?thesis
    using res s2 by (auto simp: Blocks_getBlock_def)
qed

text \<open>
  C1 (counterexample to the claim as stated). After \<open>WithInitHeight 5\<close> on an empty store
  the watermarks are first = latest = 5 and no block is stored at height 5: height 5 is
  inside the range and \<open>GetByHeight 5\<close> returns \<open>NotFound\<close>.
\<close>

theorem GetByHeight_in_range_not_found:
  "NewBlocks emptyStorage [WithInitHeight 5] = Inr initialised5
   \<and> fst (Blocks_FirstEVMHeight initialised5) = Inr 5
   \<and> fst (Blocks_LatestEVMHeight initialised5) = Inr 5
   \<and> fst (Blocks_GetByHeight testBlockLib 5 initialised5) = Inl NotFound"
  by (simp add: NewBlocks_def WithInitHeight_def Blocks_storeInitHeight_def Storage_get_def
      Storage_set_def emptyStorage_def makePrefix_def initialised5_def Blocks_GetByHeight_def
      Blocks_FirstEVMHeight_def Blocks_LatestEVMHeight_def Blocks_getHeight_def
      bigEndianUint64_uint64Bytes Blocks_getBlock_def)

text \<open>
  Witness for C1: with first = 2 and latest = 5, height 9 is rejected although block bytes
  are stored for it, and height 3 returns the stored block.
\<close>

theorem GetByHeight_watermark_range_witness:
  "fst (Blocks_GetByHeight testBlockLib 9 indexed2to5) = Inl NotFound
   \<and> fst (Blocks_GetByHeight testBlockLib 3 indexed2to5) = Inr \<lparr>Block.Height = 3, Rest = [7]\<rparr>"
proof -
  have f: "Storage_get (store indexed2to5) firstEVMHeightKey [] = Inr (uint64Bytes 2)"
    and l: "Storage_get (store indexed2to5) latestEVMHeightKey [] = Inr (uint64Bytes 5)"
    by (simp_all add: indexed2to5_def Storage_get_def makePrefix_def)
  have c: "cacheCoherent indexed2to5 firstEVMHeightKey" "cacheCoherent indexed2to5 latestEVMHeightKey"
    by (simp_all add: indexed2to5_def cacheCoherent_def)
  note th = GetByHeight_watermark_range[OF f bigEndianUint64_uint64Bytes l bigEndianUint64_uint64Bytes c,
      of _ testBlockLib]
  have g3: "Storage_get (store indexed2to5) blockHeightKey (uint64Bytes 3) = Inr (uint64Bytes 3 @ [7])"
    by (simp add: indexed2to5_def Storage_get_def makePrefix_def)
  have d: "NewBlockFromBytes testBlockLib (uint64Bytes 3 @ [7]) = Inr \<lparr>Block.Height = 3, Rest = [7]\<rparr>"
    by (simp add: testBlockLib_def uint64Bytes_def)
  show ?thesis
    using th[of 9] th[of 3] by (simp add: g3 d)
qed

text \<open>
  C2 (code evaluated at the failing input). \<open>Blocks.Store\<close> issues its writes one by one
  (the source marks batching as still to do). When the engine rejects the second write,
  the id-to-height entry, \<open>Store\<close> returns the error and the first write, height to
  payload, stays in the store.
\<close>

theorem Store_partial_on_error:
  "Blocks_Store testBlockLib 9 \<lparr>Block.Height = 6, Rest = [1]\<rparr>
     \<lparr>store = emptyStorage\<lparr>writeFaults := {(blockIDToHeightKey, [1])}\<rparr>, heightCache = (\<lambda>_. 0)\<rparr>
   = (Some EngineFault,
      \<lparr>store = \<lparr>db = [((blockHeightKey, uint64Bytes 6), uint64Bytes 6 @ [1])],
                 readFaults = {}, writeFaults = {(blockIDToHeightKey, [1])}\<rparr>,
       heightCache = (\<lambda>_. 0)\<rparr>)"
  by (simp add: Blocks_Store_def testBlockLib_def Storage_set_def makePrefix_def emptyStorage_def)

section \<open>Properties of the receipt index\<close>

text \<open>
  The height check of \<open>Receipts.Store\<close> at work: receipts at heights 5 and 7 are rejected,
  after the entry of the first receipt was written.
\<close>

lemma Store_heights_5_and_7_rejected:
  "Receipts_Store (fixedRlp [1] [2] [] []) [receiptAt 5 [10], receiptAt 7 [11]] None emptyStorage =
     (Some (Errorf ''can't store receipts for multiple heights''),
      \<lparr>db = [((receiptTxIDToHeightKey, [10]), uint64Bytes 5)],
        readFaults = {}, writeFaults = {}\<rparr>,
      None)"
  by (simp add: Receipts_Store_def fixedRlp_def receiptAt_def BigInt_Uint64_def Storage_set_def
      makePrefix_def emptyStorage_def Let_def)

text \<open>
  C4 (code evaluated at the failing input). The height check compares a receipt with the
  height seen so far only when that height is not 0, the initial value of the variable. A
  receipt at height 0 followed by a receipt at height 5 passes the check: \<open>Store\<close> returns
  no error and files the whole list, and its blooms, under height 5.
\<close>

theorem Store_mixed_heights_accepted:
  "Receipts_Store (fixedRlp [1] [2] [] []) [receiptAt 0 [10], receiptAt 5 [11]] None emptyStorage =
     (None,
      \<lparr>db = [((receiptTxIDToHeightKey, [10]), uint64Bytes 0),
             ((receiptTxIDToHeightKey, [11]), uint64Bytes 5),
             ((receiptHeightKey, uint64Bytes 5), [1]),
             ((bloomHeightKey, uint64Bytes 5), [2])],
        readFaults = {}, writeFaults = {}\<rparr>,
      None)"
  by (simp add: Receipts_Store_def fixedRlp_def receiptAt_def BigInt_Uint64_def Storage_set_def
      makePrefix_def emptyStorage_def Let_def)

text \<open>
  C9. \<open>Receipts.Store\<close> with an empty receipt list, when the encoder encodes the empty
  lists and the engine accepts the two writes: it returns no error and makes exactly two
  writes, the encoded empty receipt list and the encoded empty bloom list, both under the
  key of height 0. Without a batch the writes go to the database, with a batch they are
  appended to it; no transaction-id entry is written.
\<close>

theorem Store_empty_list:
  assumes "EncodeReceipts lib [] = Inr rb" "EncodeBlooms lib [] = Inr bb"
    and "(receiptHeightKey, uint64Bytes 0) \<notin> writeFaults s"
        "(bloomHeightKey, uint64Bytes 0) \<notin> writeFaults s"
  shows "Receipts_Store lib [] None s =
           (None,
            s\<lparr>db := AList.update (bloomHeightKey, uint64Bytes 0) bb
                      (AList.update (receiptHeightKey, uint64Bytes 0) rb (db s))\<rparr>,
            None)
       \<and> Receipts_Store lib [] (Some b) s =
           (None, s,
            Some (b @ [((receiptHeightKey, uint64Bytes 0), rb), ((bloomHeightKey, uint64Bytes 0), bb)]))"
  using assms by (simp add: Receipts_Store_def Storage_set_def makePrefix_def Let_def)

theorem Store_empty_list_witness:
  "Receipts_Store (fixedRlp [192] [192] [] []) [] None emptyStorage =
     (None,
      \<lparr>db = [((receiptHeightKey, uint64Bytes 0), [192]), ((bloomHeightKey, uint64Bytes 0), [192])],
        readFaults = {}, writeFaults = {}\<rparr>,
      None)
   \<and> Receipts_Store (fixedRlp [192] [192] [] []) [] (Some []) emptyStorage =
     (None, emptyStorage,
      Some [((receiptHeightKey, uint64Bytes 0), [192]), ((bloomHeightKey, uint64Bytes 0), [192])])"
  using Store_empty_list[of "fixedRlp [192] [192] [] []" "[192]" "[192]" emptyStorage "[]"]
  by (simp add: fixedRlp_def emptyStorage_def)

section \<open>Properties of the cross-spork router\<close>

text \<open>
  When every registered boundary lies below the height, the current endpoint is chosen.
\<close>

lemma getClientForHeight_current:
  assumes "\<forall>b\<in>set (sporkHosts c). fst b < h"
  shows "getClientForHeight h c = currentHost c"
proof -
  have "find (\<lambda>boundary. fst boundary \<ge> h) (sporkHosts c) = None"
    using assms by (auto simp: find_None_iff)
  then show ?thesis by (simp add: getClientForHeight_def)
qed

text \<open>
  With the boundaries in ascending order and their heights distinct, the scan chooses the
  boundary with the least lastHeight at or above the height.
\<close>

lemma getClientForHeight_boundary:
  assumes srt: "sorted (map fst (sporkHosts c))" and dst: "distinct (map fst (sporkHosts c))"
    and b: "b \<in> set (sporkHosts c)" "h \<le> fst b"
    and least: "\<forall>b'\<in>set (sporkHosts c). h \<le> fst b' \<longrightarrow> fst b \<le> fst b'"
  shows "getClientForHeight h c = snd b"
proof -
  let ?xs = "sporkHosts c"
  have "find (\<lambda>boundary. fst boundary \<ge> h) ?xs \<noteq> None"
    using b unfolding find_None_iff by blast
  then obtain x where fx: "find (\<lambda>boundary. fst boundary \<ge> h) ?xs = Some x"
    by blast
  then obtain i where i: "i < length ?xs" "h \<le> fst (?xs ! i)" "x = ?xs ! i"
    and before: "\<forall>j<i. \<not> h \<le> fst (?xs ! j)"
    by (auto simp: find_Some_iff)
  from b(1) obtain k where k: "k < length ?xs" "?xs ! k = b"
    by (auto simp: in_set_conv_nth)
  have "i \<le> k" using before k b(2) by (meson not_le_imp_less)
  then have "map fst ?xs ! i \<le> map fst ?xs ! k"
    using sorted_nth_mono[OF srt, of i k] k by simp
  then have "fst x \<le> fst b"
    using i k \<open>i \<le> k\<close> by simp
  moreover have "fst b \<le> fst x" using least i by auto
  ultimately have "fst x = fst b" by simp
  then have "x = b"
    using dst i k by (metis distinct_conv_nth length_map nth_map)
  then show ?thesis using fx by (simp add: getClientForHeight_def)
qed

text \<open>
  C6. With the boundaries in ascending order of lastHeight and their heights distinct (as
  \<open>AddSpork\<close> keeps them), \<open>getClientForHeight h\<close> returns the current endpoint when no
  boundary has lastHeight \<ge> h, and otherwise the endpoint of the boundary with the least
  lastHeight \<ge> h, a boundary height belonging to its own segment. In the scenario
  current = test1.com, AddSpork(100, test2.com), AddSpork(200, test3.com): height 300 goes
  to test1.com, 150 to test3.com, 50 to test2.com and 200 to test3.com.
\<close>

theorem getClientForHeight_first_boundary:
  assumes "sorted (map fst (sporkHosts c))" and "distinct (map fst (sporkHosts c))"
  shows "((\<forall>b\<in>set (sporkHosts c). fst b < h) \<longrightarrow> getClientForHeight h c = currentHost c)
       \<and> (\<forall>b\<in>set (sporkHosts c).
            h \<le> fst b \<and> (\<forall>b'\<in>set (sporkHosts c). h \<le> fst b' \<longrightarrow> fst b \<le> fst b')
            \<longrightarrow> getClientForHeight h c = snd b)
       \<and> AddSpork 100 ''test2.com'' (NewCrossSporkClient ''test1.com'')
            = Inr \<lparr>currentHost = ''test1.com'', sporkHosts = [(100, ''test2.com'')]\<rparr>
       \<and> AddSpork 200 ''test3.com'' \<lparr>currentHost = ''test1.com'', sporkHosts = [(100, ''test2.com'')]\<rparr>
            = Inr twoSporks
       \<and> getClientForHeight 300 twoSporks = ''test1.com''
       \<and> getClientForHeight 150 twoSporks = ''test3.com''
       \<and> getClientForHeight 50 twoSporks = ''test2.com''
       \<and> getClientForHeight 200 twoSporks = ''test3.com''"
proof -
  have scen: "AddSpork 100 ''test2.com'' (NewCrossSporkClient ''test1.com'')
            = Inr \<lparr>currentHost = ''test1.com'', sporkHosts = [(100, ''test2.com'')]\<rparr>"
     "AddSpork 200 ''test3.com'' \<lparr>currentHost = ''test1.com'', sporkHosts = [(100, ''test2.com'')]\<rparr>
            = Inr twoSporks"
     "getClientForHeight 300 twoSporks = ''test1.com''"
     "getClientForHeight 150 twoSporks = ''test3.com''"
     "getClientForHeight 50 twoSporks = ''test2.com''"
     "getClientForHeight 200 twoSporks = ''test3.com''"
    by (simp_all add: AddSpork_def NewCrossSporkClient_def twoSporks_def getClientForHeight_def)
  show ?thesis
    using getClientForHeight_current[of c h] getClientForHeight_boundary[OF assms, of _ h] scen
    by blast
qed

text \<open>
  Witness for C6, on the router of the scenario.
\<close>

theorem getClientForHeight_first_boundary_witness:
  "getClientForHeight 150 twoSporks = snd (200, ''test3.com'')
   \<and> getClientForHeight 201 twoSporks = currentHost twoSporks"
proof -
  have s: "sorted (map fst (sporkHosts twoSporks))" "distinct (map fst (sporkHosts twoSporks))"
    by (simp_all add: twoSporks_def)
  have a: "\<forall>b\<in>set (sporkHosts twoSporks). fst b < 201"
    by (simp add: twoSporks_def)
  have b: "(200, ''test3.com'') \<in> set (sporkHosts twoSporks)"
    "150 \<le> fst (200 :: uint64, ''test3.com'')"
    "\<forall>b'\<in>set (sporkHosts twoSporks). 150 \<le> fst b' \<longrightarrow> fst (200 :: uint64, ''test3.com'') \<le> fst b'"
    by (simp_all add: twoSporks_def)
  from getClientForHeight_first_boundary[OF s, of 150] b
  have "getClientForHeight 150 twoSporks = snd (200 :: uint64, ''test3.com'')" by blast
  moreover from getClientForHeight_first_boundary[OF s, of 201] a
  have "getClientForHeight 201 twoSporks = currentHost twoSporks" by blast
  ultimately show ?thesis by simp
qed

text \<open>
  The heights of the boundaries after an ordered insertion.
\<close>

lemma map_fst_insort_key:
  "map fst (insort_key fst x xs) = insort (fst x) (map fst xs)"
  by (induction xs) auto

text \<open>
  C8. On a router whose boundaries are in ascending order with distinct heights,
  \<open>AddSpork lastHeight host\<close> fails with the duplicate-boundary error exactly when a
  boundary with that lastHeight is registered; otherwise it adds the boundary, keeps the
  current endpoint, and the boundaries stay in ascending order with distinct heights. In
  particular AddSpork(100, host2.com) followed by AddSpork(100, host3.com) fails.
\<close>

theorem AddSpork_ordered_no_duplicates:
  assumes "sorted (map fst (sporkHosts c))" and "distinct (map fst (sporkHosts c))"
  shows "(lastHeight \<in> fst ` set (sporkHosts c) \<longrightarrow>
            AddSpork lastHeight host c = Inl (Errorf ''provided last height already exists''))
       \<and> (lastHeight \<notin> fst ` set (sporkHosts c) \<longrightarrow>
            (\<exists>c'. AddSpork lastHeight host c = Inr c'
                 \<and> currentHost c' = currentHost c
                 \<and> set (sporkHosts c') = insert (lastHeight, host) (set (sporkHosts c))
                 \<and> sorted (map fst (sporkHosts c'))
                 \<and> distinct (map fst (sporkHosts c'))))
       \<and> AddSpork 100 ''host2.com'' (NewCrossSporkClient ''host1.com'')
            = Inr \<lparr>currentHost = ''host1.com'', sporkHosts = [(100, ''host2.com'')]\<rparr>
       \<and> AddSpork 100 ''host3.com'' \<lparr>currentHost = ''host1.com'', sporkHosts = [(100, ''host2.com'')]\<rparr>
            = Inl (Errorf ''provided last height already exists'')"
proof -
  show ?thesis
    using assms
    by (auto simp: AddSpork_def NewCrossSporkClient_def map_fst_insort_key sorted_insort
        distinct_insort set_insort_key)
qed

text \<open>
  Witness for C8, on the router of the scenario.
\<close>

theorem AddSpork_ordered_no_duplicates_witness:
  "AddSpork 200 ''test3.com'' twoSporks = Inl (Errorf ''provided last height already exists'')
   \<and> (\<exists>c'. AddSpork 150 ''test4.com'' twoSporks = Inr c'
          \<and> currentHost c' = currentHost twoSporks
          \<and> set (sporkHosts c') = insert (150, ''test4.com'') (set (sporkHosts twoSporks))
          \<and> sorted (map fst (sporkHosts c'))
          \<and> distinct (map fst (sporkHosts c')))"
proof -
  have s: "sorted (map fst (sporkHosts twoSporks))" "distinct (map fst (sporkHosts twoSporks))"
    by (simp_all add: twoSporks_def)
  have m: "(200 :: uint64) \<in> fst ` set (sporkHosts twoSporks)"
    "(150 :: uint64) \<notin> fst ` set (sporkHosts twoSporks)"
    by (simp_all add: twoSporks_def)
  show ?thesis
    using AddSpork_ordered_no_duplicates[OF s, of 200 "''test3.com''"]
      AddSpork_ordered_no_duplicates[OF s, of 150 "''test4.com''"] m
    by blast
qed

section \<open>Properties of the call transaction\<close>

text \<open>
  C10. Let tx be the unsigned legacy transaction (V = R = S = 0) with nonce 0, gas price 0,
  gas limit the \<open>Gas\<close> argument if given and 15,000,000 otherwise, value the \<open>Value\<close>
  argument if given and 0 otherwise, payload \<open>Data\<close> if given, else \<open>Input\<close> if given,
  else empty, and recipient the \<open>To\<close> argument. Whenever marshalling tx succeeds,
  \<open>encodeTxFromArgs\<close> returns that encoding; it returns an encoding only then; and when
  marshalling fails it returns the error wrapped with \<open>ErrInvalid\<close>.
\<close>

theorem encodeTxFromArgs_unsigned_legacy:
  fixes tx :: LegacyTx
  assumes "Nonce tx = 0" and "GasPrice tx = 0"
    and "LegacyTx.Gas tx = (case TransactionArgs.Gas args of Some g \<Rightarrow> g | None \<Rightarrow> 15000000)"
    and "LegacyTx.Value tx = (case TransactionArgs.Value args of Some v \<Rightarrow> v | None \<Rightarrow> 0)"
    and "LegacyTx.Data tx =
           (case TransactionArgs.Data args of
              Some d \<Rightarrow> d
            | None \<Rightarrow> (case Input args of Some i \<Rightarrow> i | None \<Rightarrow> []))"
    and "LegacyTx.To tx = TransactionArgs.To args"
    and "V tx = 0" and "R tx = 0" and "S tx = 0"
  shows "(MarshalBinary tx = Inr enc \<longrightarrow> encodeTxFromArgs MarshalBinary args = Inr enc)
       \<and> (encodeTxFromArgs MarshalBinary args = Inr enc \<longrightarrow> MarshalBinary tx = Inr enc)
       \<and> (MarshalBinary tx = Inl err \<longrightarrow>
            encodeTxFromArgs MarshalBinary args = Inl (Wrap2 ErrInvalid err))"
proof -
  have tx: "tx =
     \<lparr>Nonce = 0, GasPrice = 0,
      Gas = (case TransactionArgs.Gas args of Some g \<Rightarrow> g | None \<Rightarrow> blockGasLimit),
      To = TransactionArgs.To args,
      Value = (case TransactionArgs.Value args of Some v \<Rightarrow> v | None \<Rightarrow> 0),
      Data = (case TransactionArgs.Data args of
                Some d \<Rightarrow> d
              | None \<Rightarrow> (case Input args of Some i \<Rightarrow> i | None \<Rightarrow> [])),
      V = 0, R = 0, S = 0\<rparr>"
    using assms by (cases tx) (simp add: blockGasLimit_def split: option.splits)
  have "encodeTxFromArgs MarshalBinary args =
          (case MarshalBinary tx of Inl e \<Rightarrow> Inl (Wrap2 ErrInvalid e) | Inr c \<Rightarrow> Inr c)"
    unfolding tx by (simp add: encodeTxFromArgs_def Let_def)
  then show ?thesis
    by (cases "MarshalBinary tx") auto
qed

text \<open>
  Witness for C10: no gas and no data given, an input and a value given; marshalling
  succeeds and \<open>encodeTxFromArgs\<close> returns the encoding with gas limit 15,000,000 and the
  input as payload.
\<close>

theorem encodeTxFromArgs_unsigned_legacy_witness:
  "encodeTxFromArgs sizeMarshal
     \<lparr>TransactionArgs.To = None, Gas = None, Value = Some 3, Data = None, Input = Some [7, 8]\<rparr>
   = Inr (uint64Bytes 15000000 @ [7, 8])"
proof -
  let ?tx = "\<lparr>Nonce = 0, GasPrice = 0, Gas = 15000000, To = None, Value = 3, Data = [7, 8],
              V = 0, R = 0, S = 0\<rparr>"
  let ?args = "\<lparr>TransactionArgs.To = None, Gas = None, Value = Some 3, Data = None,
                Input = Some [7, 8]\<rparr>"
  have m: "sizeMarshal ?tx = Inr (uint64Bytes 15000000 @ [7, 8])"
    by (simp add: sizeMarshal_def)
  have "sizeMarshal ?tx = Inr (uint64Bytes 15000000 @ [7, 8]) \<longrightarrow>
        encodeTxFromArgs sizeMarshal ?args = Inr (uint64Bytes 15000000 @ [7, 8])"
    by (rule encodeTxFromArgs_unsigned_legacy[of ?tx ?args sizeMarshal, THEN conjunct1]) simp_all
  with m show ?thesis by (rule rev_mp)
qed

section \<open>Reading receipts back\<close>

text \<open>
  A write without a batch, to a key the engine accepts, updates the database.
\<close>

lemma Storage_set_direct:
  "(code, k) \<notin> writeFaults s \<Longrightarrow>
   Storage_set s code k v None = Inr (s\<lparr>db := AList.update (code, k) v (db s)\<rparr>, None)"
  by (simp add: Storage_set_def makePrefix_def)

text \<open>
  The loop of \<open>Receipts.Store\<close> on receipts that all have height H, when the engine accepts
  the transaction-id writes: it ends without error with the blooms of the receipts in order
  and the height H, and it changes only entries of the transaction-id index.
\<close>

lemma Store_loop_direct:
  assumes "\<forall>r\<in>set rs. BigInt_Uint64 (StorageReceipt.BlockNumber r) = H"
    and "\<forall>r\<in>set rs. (receiptTxIDToHeightKey, StorageReceipt.TxHash r) \<notin> writeFaults s"
    and "height = 0 \<or> height = H"
  shows "\<exists>s'. Receipts_Store_loop rs blooms height s None =
                (None, blooms @ map Bloom rs, (if rs = [] then height else H), s', None)
             \<and> readFaults s' = readFaults s \<and> writeFaults s' = writeFaults s
             \<and> (\<forall>k. fst k \<noteq> receiptTxIDToHeightKey \<longrightarrow> map_of (db s') k = map_of (db s) k)"
  using assms
proof (induction rs arbitrary: blooms height s)
  case Nil
  then show ?case by simp
next
  case (Cons r rs)
  let ?s1 = "s\<lparr>db := AList.update (receiptTxIDToHeightKey, StorageReceipt.TxHash r) (uint64Bytes H) (db s)\<rparr>"
  have h: "BigInt_Uint64 (StorageReceipt.BlockNumber r) = H" using Cons.prems(1) by simp
  have w: "(receiptTxIDToHeightKey, StorageReceipt.TxHash r) \<notin> writeFaults s"
    using Cons.prems(2) by simp
  have step: "Receipts_Store_loop (r # rs) blooms height s None =
              Receipts_Store_loop rs (blooms @ [Bloom r]) H ?s1 None"
    using Cons.prems(3) h by (auto simp: Storage_set_direct[OF w])
  have "\<exists>s'. Receipts_Store_loop rs (blooms @ [Bloom r]) H ?s1 None =
                (None, (blooms @ [Bloom r]) @ map Bloom rs, (if rs = [] then H else H), s', None)
             \<and> readFaults s' = readFaults ?s1 \<and> writeFaults s' = writeFaults ?s1
             \<and> (\<forall>k. fst k \<noteq> receiptTxIDToHeightKey \<longrightarrow> map_of (db s') k = map_of (db ?s1) k)"
    by (rule Cons.IH) (use Cons.prems in simp_all)
  then obtain s' where s': "Receipts_Store_loop rs (blooms @ [Bloom r]) H ?s1 None =
                (None, (blooms @ [Bloom r]) @ map Bloom rs, H, s', None)"
      "readFaults s' = readFaults s" "writeFaults s' = writeFaults s"
      "\<forall>k. fst k \<noteq> receiptTxIDToHeightKey \<longrightarrow> map_of (db s') k = map_of (db ?s1) k"
    by auto
  have "\<forall>k. fst k \<noteq> receiptTxIDToHeightKey \<longrightarrow> map_of (db s') k = map_of (db s) k"
    using s'(4) by (auto simp: update_conv')
  then show ?case using step s'(1,2,3) by simp
qed

text \<open>
  Populating the logs leaves the fields of the receipt and the number of logs unchanged.
\<close>

lemma populateLogs_fields:
  "Status (populateLogs d) = Status d" "CumulativeGasUsed (populateLogs d) = CumulativeGasUsed d"
  "Bloom (populateLogs d) = Bloom d" "StorageReceipt.TxHash (populateLogs d) = StorageReceipt.TxHash d"
  "StorageReceipt.BlockHash (populateLogs d) = StorageReceipt.BlockHash d"
  "StorageReceipt.BlockNumber (populateLogs d) = StorageReceipt.BlockNumber d"
  "TransactionIndex (populateLogs d) = TransactionIndex d"
  "length (Logs (populateLogs d)) = length (Logs d)"
  by (simp_all add: populateLogs_def)

text \<open>
  The log at position j is populated from its receipt with index j.
\<close>

lemma populateLogs_nth:
  "j < length (Logs d) \<Longrightarrow> Logs (populateLogs d) ! j = populateLog d j (Logs d ! j)"
  by (simp add: populateLogs_def nth_enumerate_eq)

text \<open>
  C7. Let rs be a non-empty receipt list whose receipts all have height H, stored by
  \<open>Receipts.Store\<close> without a batch on a store whose engine accepts the writes and the read.
  Let the decoder return, for the bytes the encoder gave for rs, a list ds of the same
  length that agrees with rs on the receipt fields and on the persisted log fields
  (address, topics, data): the round trip of the encoding, which does not persist the
  derived log fields. Then \<open>Store\<close> returns no error and \<open>GetByBlockHeight H\<close> returns the
  receipts in the stored order, and every log of every receipt has the block hash, block
  number, transaction hash and transaction index of its receipt, and its position among
  the receipt's logs as index.
\<close>

theorem GetByBlockHeight_after_Store:
  assumes ne: "rs \<noteq> []"
    and hts: "\<forall>r\<in>set rs. BigInt_Uint64 (StorageReceipt.BlockNumber r) = H"
    and enc: "EncodeReceipts lib rs = Inr rb" "EncodeBlooms lib (map Bloom rs) = Inr bb"
    and dec: "DecodeReceipts lib rb = Inr ds" "length ds = length rs"
      "\<forall>i<length rs.
         Status (ds ! i) = Status (rs ! i)
         \<and> CumulativeGasUsed (ds ! i) = CumulativeGasUsed (rs ! i)
         \<and> Bloom (ds ! i) = Bloom (rs ! i)
         \<and> StorageReceipt.TxHash (ds ! i) = StorageReceipt.TxHash (rs ! i)
         \<and> StorageReceipt.BlockHash (ds ! i) = StorageReceipt.BlockHash (rs ! i)
         \<and> StorageReceipt.BlockNumber (ds ! i) = StorageReceipt.BlockNumber (rs ! i)
         \<and> TransactionIndex (ds ! i) = TransactionIndex (rs ! i)
         \<and> length (Logs (ds ! i)) = length (Logs (rs ! i))
         \<and> (\<forall>j<length (Logs (rs ! i)).
               Address (Logs (ds ! i) ! j) = Address (Logs (rs ! i) ! j)
               \<and> Topics (Logs (ds ! i) ! j) = Topics (Logs (rs ! i) ! j)
               \<and> Log.Data (Logs (ds ! i) ! j) = Log.Data (Logs (rs ! i) ! j))"
    and wf: "\<forall>r\<in>set rs. (receiptTxIDToHeightKey, StorageReceipt.TxHash r) \<notin> writeFaults s"
      "(receiptHeightKey, uint64Bytes H) \<notin> writeFaults s"
      "(bloomHeightKey, uint64Bytes H) \<notin> writeFaults s"
    and rf: "(receiptHeightKey, uint64Bytes H) \<notin> readFaults s"
  shows "\<exists>s' res.
           Receipts_Store lib rs None s = (None, s', None)
         \<and> Receipts_GetByBlockHeight lib H s' = Inr res
         \<and> length res = length rs
         \<and> (\<forall>i<length rs.
               Status (res ! i) = Status (rs ! i)
             \<and> CumulativeGasUsed (res ! i) = CumulativeGasUsed (rs ! i)
             \<and> Bloom (res ! i) = Bloom (rs ! i)
             \<and> StorageReceipt.TxHash (res ! i) = StorageReceipt.TxHash (rs ! i)
             \<and> StorageReceipt.BlockHash (res ! i) = StorageReceipt.BlockHash (rs ! i)
             \<and> StorageReceipt.BlockNumber (res ! i) = StorageReceipt.BlockNumber (rs ! i)
             \<and> TransactionIndex (res ! i) = TransactionIndex (rs ! i)
             \<and> length (Logs (res ! i)) = length (Logs (rs ! i))
             \<and> (\<forall>j<length (Logs (rs ! i)).
                   Log.BlockHash (Logs (res ! i) ! j) = StorageReceipt.BlockHash (rs ! i)
                 \<and> Log.BlockNumber (Logs (res ! i) ! j) = H
                 \<and> Log.TxHash (Logs (res ! i) ! j) = StorageReceipt.TxHash (rs ! i)
                 \<and> TxIndex (Logs (res ! i) ! j) = TransactionIndex (rs ! i)
                 \<and> Index (Logs (res ! i) ! j) = j
                 \<and> Address (Logs (res ! i) ! j) = Address (Logs (rs ! i) ! j)
                 \<and> Topics (Logs (res ! i) ! j) = Topics (Logs (rs ! i) ! j)
                 \<and> Log.Data (Logs (res ! i) ! j) = Log.Data (Logs (rs ! i) ! j)))"
proof -
  from Store_loop_direct[OF hts wf(1), of 0 "[]"] ne
  obtain s1 where s1: "Receipts_Store_loop rs [] 0 s None = (None, map Bloom rs, H, s1, None)"
    "readFaults s1 = readFaults s" "writeFaults s1 = writeFaults s"
    by auto
  let ?s2 = "s1\<lparr>db := AList.update (receiptHeightKey, uint64Bytes H) rb (db s1)\<rparr>"
  let ?s3 = "?s2\<lparr>db := AList.update (bloomHeightKey, uint64Bytes H) bb (db ?s2)\<rparr>"
  have st: "Receipts_Store lib rs None s = (None, ?s3, None)"
    using s1 enc wf(2,3)
    by (simp add: Receipts_Store_def Let_def Storage_set_direct)
  have rd: "Storage_get ?s3 receiptHeightKey (uint64Bytes H) = Inr rb"
    using rf s1(2) by (simp add: Storage_get_def makePrefix_def update_conv')
  have get: "Receipts_GetByBlockHeight lib H ?s3 = Inr (map populateLogs ds)"
    using rd dec(1) by (simp add: Receipts_GetByBlockHeight_def Receipts_getByBlockHeight_def)
  have fields: "Status (map populateLogs ds ! i) = Status (rs ! i)
             \<and> CumulativeGasUsed (map populateLogs ds ! i) = CumulativeGasUsed (rs ! i)
             \<and> Bloom (map populateLogs ds ! i) = Bloom (rs ! i)
             \<and> StorageReceipt.TxHash (map populateLogs ds ! i) = StorageReceipt.TxHash (rs ! i)
             \<and> StorageReceipt.BlockHash (map populateLogs ds ! i) = StorageReceipt.BlockHash (rs ! i)
             \<and> StorageReceipt.BlockNumber (map populateLogs ds ! i) = StorageReceipt.BlockNumber (rs ! i)
             \<and> TransactionIndex (map populateLogs ds ! i) = TransactionIndex (rs ! i)
             \<and> length (Logs (map populateLogs ds ! i)) = length (Logs (rs ! i))
             \<and> (\<forall>j<length (Logs (rs ! i)).
                   Log.BlockHash (Logs (map populateLogs ds ! i) ! j) = StorageReceipt.BlockHash (rs ! i)
                 \<and> Log.BlockNumber (Logs (map populateLogs ds ! i) ! j) = H
                 \<and> Log.TxHash (Logs (map populateLogs ds ! i) ! j) = StorageReceipt.TxHash (rs ! i)
                 \<and> TxIndex (Logs (map populateLogs ds ! i) ! j) = TransactionIndex (rs ! i)
                 \<and> Index (Logs (map populateLogs ds ! i) ! j) = j
                 \<and> Address (Logs (map populateLogs ds ! i) ! j) = Address (Logs (rs ! i) ! j)
                 \<and> Topics (Logs (map populateLogs ds ! i) ! j) = Topics (Logs (rs ! i) ! j)
                 \<and> Log.Data (Logs (map populateLogs ds ! i) ! j) = Log.Data (Logs (rs ! i) ! j))"
    if i: "i < length rs" for i
  proof -
    have n: "map populateLogs ds ! i = populateLogs (ds ! i)"
      using i dec(2) by simp
    have hi: "BigInt_Uint64 (StorageReceipt.BlockNumber (rs ! i)) = H"
      using hts i by simp
    note d = dec(3)[rule_format, OF i]
    show ?thesis
      unfolding n using d hi
      by (simp add: populateLogs_fields populateLogs_nth populateLog_def)
  qed
  show ?thesis
    using st get fields dec(2) by (intro exI[of _ ?s3] exI[of _ "map populateLogs ds"]) simp
qed


text \<open>
  Witness for C7: one receipt at height 5 with two logs; the first log is stored with a
  wrong index and transaction hash, and is read back with index 0 and the hash of its
  receipt.
\<close>

theorem GetByBlockHeight_after_Store_witness:
  "\<exists>s' res.
      Receipts_Store
        (fixedRlp [1] [2] [receiptWithLogs [decodedLog [1] [[2]] [3], decodedLog [6] [] [7]]] [])
        [receiptWithLogs [decodedLog [1] [[2]] [3]\<lparr>Index := 9, Log.TxHash := [8]\<rparr>,
                          decodedLog [6] [] [7]]]
        None emptyStorage = (None, s', None)
    \<and> Receipts_GetByBlockHeight
        (fixedRlp [1] [2] [receiptWithLogs [decodedLog [1] [[2]] [3], decodedLog [6] [] [7]]] [])
        5 s' = Inr res
    \<and> length res = 1
    \<and> Log.BlockHash (Logs (res ! 0) ! 1) = [12]
    \<and> Log.BlockNumber (Logs (res ! 0) ! 1) = 5
    \<and> Log.TxHash (Logs (res ! 0) ! 0) = [11]
    \<and> TxIndex (Logs (res ! 0) ! 1) = 2
    \<and> Index (Logs (res ! 0) ! 0) = 0
    \<and> Index (Logs (res ! 0) ! 1) = 1
    \<and> Address (Logs (res ! 0) ! 1) = [6]"
proof -
  let ?ds = "[receiptWithLogs [decodedLog [1] [[2]] [3], decodedLog [6] [] [7]]]"
  let ?rs = "[receiptWithLogs [decodedLog [1] [[2]] [3]\<lparr>Index := 9, Log.TxHash := [8]\<rparr>,
                          decodedLog [6] [] [7]]]"
  let ?lib = "fixedRlp [1] [2] ?ds []"
  have "\<exists>s' res.
           Receipts_Store ?lib ?rs None emptyStorage = (None, s', None)
         \<and> Receipts_GetByBlockHeight ?lib 5 s' = Inr res
         \<and> length res = length ?rs
         \<and> (\<forall>i<length ?rs.
               Status (res ! i) = Status (?rs ! i)
             \<and> CumulativeGasUsed (res ! i) = CumulativeGasUsed (?rs ! i)
             \<and> Bloom (res ! i) = Bloom (?rs ! i)
             \<and> StorageReceipt.TxHash (res ! i) = StorageReceipt.TxHash (?rs ! i)
             \<and> StorageReceipt.BlockHash (res ! i) = StorageReceipt.BlockHash (?rs ! i)
             \<and> StorageReceipt.BlockNumber (res ! i) = StorageReceipt.BlockNumber (?rs ! i)
             \<and> TransactionIndex (res ! i) = TransactionIndex (?rs ! i)
             \<and> length (Logs (res ! i)) = length (Logs (?rs ! i))
             \<and> (\<forall>j<length (Logs (?rs ! i)).
                   Log.BlockHash (Logs (res ! i) ! j) = StorageReceipt.BlockHash (?rs ! i)
                 \<and> Log.BlockNumber (Logs (res ! i) ! j) = 5
                 \<and> Log.TxHash (Logs (res ! i) ! j) = StorageReceipt.TxHash (?rs ! i)
                 \<and> TxIndex (Logs (res ! i) ! j) = TransactionIndex (?rs ! i)
                 \<and> Index (Logs (res ! i) ! j) = j
                 \<and> Address (Logs (res ! i) ! j) = Address (Logs (?rs ! i) ! j)
                 \<and> Topics (Logs (res ! i) ! j) = Topics (Logs (?rs ! i) ! j)
                 \<and> Log.Data (Logs (res ! i) ! j) = Log.Data (Logs (?rs ! i) ! j)))"
    by (rule GetByBlockHeight_after_Store[where rb = "[1]" and bb = "[2]" and ds = ?ds])
       (simp_all add: fixedRlp_def receiptWithLogs_def decodedLog_def BigInt_Uint64_def
          emptyStorage_def less_Suc_eq)
  then obtain s' res where r:
      "Receipts_Store ?lib ?rs None emptyStorage = (None, s', None)"
      "Receipts_GetByBlockHeight ?lib 5 s' = Inr res"
      "length res = length ?rs"
      and all: "\<forall>i<length ?rs.
               Status (res ! i) = Status (?rs ! i)
             \<and> CumulativeGasUsed (res ! i) = CumulativeGasUsed (?rs ! i)
             \<and> Bloom (res ! i) = Bloom (?rs ! i)
             \<and> StorageReceipt.TxHash (res ! i) = StorageReceipt.TxHash (?rs ! i)
             \<and> StorageReceipt.BlockHash (res ! i) = StorageReceipt.BlockHash (?rs ! i)
             \<and> StorageReceipt.BlockNumber (res ! i) = StorageReceipt.BlockNumber (?rs ! i)
             \<and> TransactionIndex (res ! i) = TransactionIndex (?rs ! i)
             \<and> length (Logs (res ! i)) = length (Logs (?rs ! i))
             \<and> (\<forall>j<length (Logs (?rs ! i)).
                   Log.BlockHash (Logs (res ! i) ! j) = StorageReceipt.BlockHash (?rs ! i)
                 \<and> Log.BlockNumber (Logs (res ! i) ! j) = 5
                 \<and> Log.TxHash (Logs (res ! i) ! j) = StorageReceipt.TxHash (?rs ! i)
                 \<and> TxIndex (Logs (res ! i) ! j) = TransactionIndex (?rs ! i)
                 \<and> Index (Logs (res ! i) ! j) = j
                 \<and> Address (Logs (res ! i) ! j) = Address (Logs (?rs ! i) ! j)
                 \<and> Topics (Logs (res ! i) ! j) = Topics (Logs (?rs ! i) ! j)
                 \<and> Log.Data (Logs (res ! i) ! j) = Log.Data (Logs (?rs ! i) ! j))"
    by blast
  from all have l: "\<forall>j<2.
                   Log.BlockHash (Logs (res ! 0) ! j) = [12]
                 \<and> Log.BlockNumber (Logs (res ! 0) ! j) = 5
                 \<and> Log.TxHash (Logs (res ! 0) ! j) = [11]
                 \<and> TxIndex (Logs (res ! 0) ! j) = 2
                 \<and> Index (Logs (res ! 0) ! j) = j
                 \<and> Address (Logs (res ! 0) ! j) = Address (Logs (?rs ! 0) ! j)"
    by (simp add: receiptWithLogs_def)
  have l0: "Log.TxHash (Logs (res ! 0) ! 0) = [11]" "Index (Logs (res ! 0) ! 0) = 0"
    using l[rule_format, of 0] by simp_all
  have l1: "Log.BlockHash (Logs (res ! 0) ! 1) = [12]" "Log.BlockNumber (Logs (res ! 0) ! 1) = 5"
    "TxIndex (Logs (res ! 0) ! 1) = 2" "Index (Logs (res ! 0) ! 1) = 1"
    "Address (Logs (res ! 0) ! 1) = [6]"
    using l[rule_format, of 1] by (simp_all add: receiptWithLogs_def decodedLog_def)
  show ?thesis
    using r l0 l1 by (intro exI[of _ s'] exI[of _ res]) simp
qed

section \<open>Bloom range queries\<close>

text \<open>
  The key of the largest height.
\<close>

lemma max_bytes: "uint64Bytes 18446744073709551615 = [255, 255, 255, 255, 255, 255, 255, 255]"
  by (simp add: uint64Bytes_def)

text \<open>
  A range below the largest height: with bloom entries at heights 5, 6 and 7 and latest
  height 7, the range from 5 to 6 gives the bloom lists of heights 5 and 6, in ascending
  order, whatever the order of the entries in the database.
\<close>

lemma BloomsForBlockRange_5_to_6:
  "Receipts_BloomsForBlockRange (fixedRlp [1] [2] [] [[4]]) 5 6 bloomsAt5and6 =
     Inr [\<lparr>Blooms = [[4]], Height = 5\<rparr>, \<lparr>Blooms = [[4]], Height = 6\<rparr>]"
  by (simp add: Receipts_BloomsForBlockRange_def Receipts_getLast_def Storage_get_def
      makePrefix_def bloomsAt5and6_def bigEndianUint64_uint64Bytes NewIter_def Let_def
      stripPrefix_def fixedRlp_def)
     (simp add: uint64Bytes_def)

text \<open>
  C5 (code evaluated at the failing input). The exclusive upper bound of the iterator is
  \<open>end + 1\<close>, computed in 64 bits. With end the largest 64-bit height the sum wraps to 0,
  the upper bound lies below the lower bound and the iterator visits nothing: with the
  latest height and a stored bloom entry both at that height, the valid range from it to
  itself returns an empty list and no error.
\<close>

theorem BloomsForBlockRange_max_height_empty:
  "Storage_get bloomsAtMaxHeight bloomHeightKey (uint64Bytes 18446744073709551615) = Inr [2]
   \<and> Receipts_getLast bloomsAtMaxHeight = Inr 18446744073709551615
   \<and> Receipts_BloomsForBlockRange (fixedRlp [1] [2] [] [[4]]) 18446744073709551615 18446744073709551615 bloomsAtMaxHeight = Inr []"
  by (simp add: Receipts_BloomsForBlockRange_def Receipts_getLast_def Storage_get_def
      makePrefix_def bloomsAtMaxHeight_def bigEndianUint64_uint64Bytes NewIter_def Let_def
      stripPrefix_def fixedRlp_def)
     (simp add: uint64Bytes_def)

end
